theory Spec2Isabelle
  imports Complex_Main "HOL-Library.Word" "HOL-Library.Sublist"
begin

section \<open>JavaScript strings\<close>

text \<open>
  A JavaScript string is a sequence of UTF-16 code units. The Thai literals of the
  source lie outside ASCII, and the regular expressions of the text cleaner name code
  units such as U+200B, so a string is modelled as a list of 16-bit words.
\<close>

type_synonym jschar = "16 word"
type_synonym jsstring = "jschar list"

text \<open>An ASCII literal of the source, as code units.\<close>

definition str :: "string \<Rightarrow> jsstring" where
  "str s = map (\<lambda>c. of_nat (of_char c)) s"

text \<open>
  The regular-expression class \<^verbatim>\<open>\s\<close> of ECMAScript: WhiteSpace (TAB, VT, FF, SP, NBSP,
  ZWNBSP and the Unicode space separators) together with LineTerminator (LF, CR, LS, PS).
  \<^verbatim>\<open>String.prototype.trim\<close> strips exactly the same code units.
\<close>

definition is_js_space :: "jschar \<Rightarrow> bool" where
  "is_js_space c \<longleftrightarrow>
     c = 0x0009 \<or> c = 0x000A \<or> c = 0x000B \<or> c = 0x000C \<or> c = 0x000D \<or> c = 0x0020
     \<or> c = 0x00A0 \<or> c = 0x1680 \<or> (0x2000 \<le> c \<and> c \<le> 0x200A)
     \<or> c = 0x2028 \<or> c = 0x2029 \<or> c = 0x202F \<or> c = 0x205F \<or> c = 0x3000 \<or> c = 0xFEFF"

text \<open>The class of the code units U+200B to U+200D and U+FEFF.\<close>

definition is_zero_width :: "jschar \<Rightarrow> bool" where
  "is_zero_width c \<longleftrightarrow> (0x200B \<le> c \<and> c \<le> 0x200D) \<or> c = 0xFEFF"

text \<open>The class \<^verbatim>\<open>[^\S\r\n]\<close>: white space other than CR and LF.\<close>

definition is_inline_space :: "jschar \<Rightarrow> bool" where
  "is_inline_space c \<longleftrightarrow> is_js_space c \<and> c \<noteq> 0x000D \<and> c \<noteq> 0x000A"

text \<open>\<^verbatim>\<open>s.trim()\<close>\<close>

definition trim :: "jsstring \<Rightarrow> jsstring" where
  "trim s = rev (dropWhile is_js_space (rev (dropWhile is_js_space s)))"

text \<open>
  \<^verbatim>\<open>s.replace(/[C]/g, r)\<close>: every code unit of the class is a match of its own and is
  replaced by \<open>r\<close>.
\<close>

definition replace_each :: "(jschar \<Rightarrow> bool) \<Rightarrow> jsstring \<Rightarrow> jsstring \<Rightarrow> jsstring" where
  "replace_each C r s = concat (map (\<lambda>c. if C c then r else [c]) s)"

text \<open>
  \<^verbatim>\<open>s.replace(/[C]+/g, r)\<close>: the matches are the maximal runs of code units of the class,
  found left to right (the quantifier is greedy), and each run is replaced by \<open>r\<close>.
\<close>

function replace_runs :: "(jschar \<Rightarrow> bool) \<Rightarrow> jsstring \<Rightarrow> jsstring \<Rightarrow> jsstring" where
  "replace_runs C r [] = []"
| "replace_runs C r (c # cs) =
     (if C c then r @ replace_runs C r (dropWhile C cs) else c # replace_runs C r cs)"
  by pat_completeness auto
termination
  by (relation "measure (\<lambda>(C, r, s). length s)")
     (auto simp: length_dropWhile_le le_imp_less_Suc)

text \<open>
  The text cleaner, written inline twice in \<^verbatim>\<open>Input.tsx\<close> (in \<^verbatim>\<open>processImageFile\<close> and in
  the \<^verbatim>\<open>onPaste\<close> handler) with the same three steps:
  \<^verbatim>\<open>
  text.replace(/[U+200B-U+200D U+FEFF]/g, "")   // Remove zero-width characters
      .replace(/[^\S\r\n]+/g, " ")              // Normalize spaces
      .trim()
  \<close>
\<close>

definition clean_text :: "jsstring \<Rightarrow> jsstring" where
  "clean_text s = trim (replace_runs is_inline_space [0x0020] (replace_each is_zero_width [] s))"

text \<open>\<^verbatim>\<open>s.startsWith(p)\<close>\<close>

definition startsWith :: "jsstring \<Rightarrow> jsstring \<Rightarrow> bool" where
  "startsWith s p \<longleftrightarrow> take (length p) s = p"

section \<open>The input page (\<^verbatim>\<open>src/pages/Input.tsx\<close>)\<close>

subsection \<open>Messages\<close>

text \<open>The Thai literals of the page, as UTF-16 code units.\<close>

definition msg_image_only :: jsstring where
  "msg_image_only =
     [0x0E01, 0x0E23, 0x0E38, 0x0E13, 0x0E32, 0x0E40, 0x0E25, 0x0E37, 0x0E2D, 0x0E01,
      0x0E44, 0x0E1F, 0x0E25, 0x0E4C, 0x0E23, 0x0E39, 0x0E1B, 0x0E20, 0x0E32, 0x0E1E,
      0x0E40, 0x0E17, 0x0E48, 0x0E32, 0x0E19, 0x0E31, 0x0E49, 0x0E19]"

definition msg_too_big :: jsstring where
  "msg_too_big =
     [0x0E44, 0x0E1F, 0x0E25, 0x0E4C, 0x0E23, 0x0E39, 0x0E1B, 0x0E20, 0x0E32, 0x0E1E,
      0x0E15, 0x0E49, 0x0E2D, 0x0E07, 0x0E21, 0x0E35, 0x0E02, 0x0E19, 0x0E32, 0x0E14,
      0x0E44, 0x0E21, 0x0E48, 0x0E40, 0x0E01, 0x0E34, 0x0E19, 0x0020, 0x0031, 0x0030,
      0x004D, 0x0042]"

definition msg_ocr_failed :: jsstring where
  "msg_ocr_failed =
     [0x0E44, 0x0E21, 0x0E48, 0x0E2A, 0x0E32, 0x0E21, 0x0E32, 0x0E23, 0x0E16, 0x0E2D,
      0x0E48, 0x0E32, 0x0E19, 0x0E02, 0x0E49, 0x0E2D, 0x0E04, 0x0E27, 0x0E32, 0x0E21,
      0x0E08, 0x0E32, 0x0E01, 0x0E23, 0x0E39, 0x0E1B, 0x0E20, 0x0E32, 0x0E1E, 0x0E44,
      0x0E14, 0x0E49]"

text \<open>The text the OCR function returns when the image holds no text.\<close>

definition no_text_found :: jsstring where
  "no_text_found =
     [0x0E44, 0x0E21, 0x0E48, 0x0E1E, 0x0E1A, 0x0E02, 0x0E49, 0x0E2D, 0x0E04, 0x0E27,
      0x0E32, 0x0E21, 0x0E43, 0x0E19, 0x0E23, 0x0E39, 0x0E1B, 0x0E20, 0x0E32, 0x0E1E]"

definition msg_paste_prompt :: jsstring where
  "msg_paste_prompt =
     [0x0E01, 0x0E23, 0x0E38, 0x0E13, 0x0E32, 0x0E27, 0x0E32, 0x0E07, 0x0E02, 0x0E49,
      0x0E2D, 0x0E04, 0x0E27, 0x0E32, 0x0E21, 0x0E17, 0x0E35, 0x0E48, 0x0E15, 0x0E49,
      0x0E2D, 0x0E07, 0x0E01, 0x0E32, 0x0E23, 0x0E1B, 0x0E23, 0x0E30, 0x0E21, 0x0E27,
      0x0E25, 0x0E1C, 0x0E25]"

definition msg_nothing_extracted :: jsstring where
  "msg_nothing_extracted =
     [0x0E44, 0x0E21, 0x0E48, 0x0E1E, 0x0E1A, 0x0E02, 0x0E49, 0x0E2D, 0x0E21, 0x0E39,
      0x0E25, 0x0E17, 0x0E35, 0x0E48, 0x0E2A, 0x0E32, 0x0E21, 0x0E32, 0x0E23, 0x0E16,
      0x0E41, 0x0E22, 0x0E01, 0x0E44, 0x0E14, 0x0E49]"

subsection \<open>State\<close>

text \<open>
  The two \<^verbatim>\<open>useState\<close> cells the handlers below write: the staged text of the textarea
  and the error line. The loading flags and the preview image decide no value here.
\<close>

record input_state =
  rawMessage :: jsstring
  error :: jsstring

subsection \<open>\<^verbatim>\<open>processImageFile\<close>\<close>

record image_file =
  file_type :: jsstring
  file_size :: nat

text \<open>
  What \<^verbatim>\<open>supabase.functions.invoke('ocr-image', ...)\<close> resolves to: an error, or
  \<open>data\<close> with its optional \<open>text\<close>.
\<close>

datatype ocr_response = OcrError | OcrData "jsstring option"

text \<open>
  The updater handed to \<^verbatim>\<open>setRawMessage\<close>:
  \<^verbatim>\<open>(prev) => prev ? prev + "\n\n" + cleanedText : cleanedText\<close>.
  A string is truthy when it is not empty.
\<close>

definition ocr_updater :: "jsstring \<Rightarrow> jsstring \<Rightarrow> jsstring" where
  "ocr_updater cleanedText prev =
     (if prev \<noteq> [] then prev @ [0x000A, 0x000A] @ cleanedText else cleanedText)"

text \<open>The body of \<^verbatim>\<open>reader.onload\<close> from the answer of the OCR call on.\<close>

definition ocr_loaded :: "ocr_response \<Rightarrow> input_state \<Rightarrow> input_state" where
  "ocr_loaded resp st =
     (case resp of
        OcrError \<Rightarrow> st\<lparr>error := msg_ocr_failed\<rparr>
      | OcrData text \<Rightarrow>
          (case map_option trim text of
             None \<Rightarrow> st
           | Some extractedText \<Rightarrow>
               if extractedText \<noteq> [] \<and> extractedText \<noteq> no_text_found
               then st\<lparr>rawMessage := ocr_updater (clean_text extractedText) (rawMessage st)\<rparr>
               else st))"

definition processImageFile :: "image_file \<Rightarrow> ocr_response \<Rightarrow> input_state \<Rightarrow> input_state" where
  "processImageFile f resp st =
     (if \<not> startsWith (file_type f) (str ''image/'') then st\<lparr>error := msg_image_only\<rparr>
      else if file_size f > 10 * 1024 * 1024 then st\<lparr>error := msg_too_big\<rparr>
      else ocr_loaded resp (st\<lparr>error := []\<rparr>))"

subsection \<open>The textarea: \<^verbatim>\<open>onChange\<close> and \<^verbatim>\<open>onPaste\<close>\<close>

text \<open>\<^verbatim>\<open>onChange\<close>: \<open>v\<close> is \<^verbatim>\<open>e.target.value\<close>, the whole content of the textarea.\<close>

definition onChange :: "jsstring \<Rightarrow> input_state \<Rightarrow> input_state" where
  "onChange v st = st\<lparr>rawMessage := v, error := []\<rparr>"

text \<open>
  The clipboard of a paste event: the media types of its items and its
  \<^verbatim>\<open>getData('text/plain')\<close>.
\<close>

record clipboard =
  items :: "jsstring list"
  text_plain :: "jsstring"

text \<open>
  The updater of the text branch:
  \<^verbatim>\<open>(prev) => (prev ? prev + cleanedText : cleanedText)\<close>.
\<close>

definition paste_updater :: "jsstring \<Rightarrow> jsstring \<Rightarrow> jsstring" where
  "paste_updater cleanedText prev = (if prev \<noteq> [] then prev @ cleanedText else cleanedText)"

text \<open>
  \<^verbatim>\<open>onPaste\<close>: the first item of an image type ends the handler (the file goes to
  \<^verbatim>\<open>processImageFile\<close>, the staged text is not written here); with no such item the text
  is cleaned and appended.
\<close>

definition onPaste :: "clipboard \<Rightarrow> input_state \<Rightarrow> input_state" where
  "onPaste clip st =
     (if list_ex (\<lambda>t. startsWith t (str ''image/'')) (items clip) then st
      else st\<lparr>rawMessage := paste_updater (clean_text (text_plain clip)) (rawMessage st),
               error := []\<rparr>)"

subsection \<open>\<^verbatim>\<open>handleProcess\<close>\<close>

text \<open>
  A report as the extraction function returns it (typed \<^verbatim>\<open>any\<close> in the source): its
  optional \<open>phone\<close> list, and every other property, which the spread
  \<^verbatim>\<open>{...report, phone: ...}\<close> copies.
\<close>

record 'a candidate =
  phone :: "jsstring list option"
  rest :: 'a

text \<open>
  What \<^verbatim>\<open>supabase.functions.invoke('extract-report', ...)\<close> resolves to: a function error
  with its message, or \<open>data\<close> with its optional \<open>error\<close> and \<open>reports\<close>.
\<close>

datatype 'a extract_response =
  FunctionError jsstring
| ExtractData "jsstring option" "'a candidate list option"

text \<open>
  Where the handler ends: the error line set (and a toast shown) without navigation, or
  a navigation to \<^verbatim>\<open>/select\<close> or to \<^verbatim>\<open>/review\<close> with the state handed over.
\<close>

datatype 'a outcome =
  Failed jsstring
| NavigateSelect "'a candidate list"
| NavigateReview "'a candidate"

text \<open>
  \<^verbatim>\<open>{...report, phone: report.phone?.map((p) => formatPhoneNumber(p)) || []}\<close>.
  \<^verbatim>\<open>formatPhoneNumber\<close> is imported from \<^verbatim>\<open>@/lib/utils\<close> and is a parameter here.
\<close>

definition format_report :: "(jsstring \<Rightarrow> jsstring) \<Rightarrow> 'a candidate \<Rightarrow> 'a candidate" where
  "format_report formatPhoneNumber report =
     report\<lparr>phone := Some (case phone report of
                              None \<Rightarrow> []
                            | Some ps \<Rightarrow> map formatPhoneNumber ps)\<rparr>"

text \<open>The body of the request, when the guard lets the call happen.\<close>

definition extract_request :: "jsstring \<Rightarrow> jsstring option" where
  "extract_request raw = (if trim raw = [] then None else Some (trim raw))"

text \<open>The handler from the answer of the extraction call on.\<close>

definition route_response :: "(jsstring \<Rightarrow> jsstring) \<Rightarrow> 'a extract_response \<Rightarrow> 'a outcome" where
  "route_response formatPhoneNumber resp =
     (case resp of
        FunctionError m \<Rightarrow> Failed m
      | ExtractData err reports \<Rightarrow>
          (case err of
             Some e \<Rightarrow>
               if e \<noteq> [] then Failed e
               else (case map_option (map (format_report formatPhoneNumber)) reports of
                       None \<Rightarrow> Failed msg_nothing_extracted
                     | Some formattedReports \<Rightarrow>
                         if length formattedReports > 1 then NavigateSelect formattedReports
                         else if length formattedReports = 1
                         then NavigateReview (formattedReports ! 0)
                         else Failed msg_nothing_extracted)
           | None \<Rightarrow>
               (case map_option (map (format_report formatPhoneNumber)) reports of
                  None \<Rightarrow> Failed msg_nothing_extracted
                | Some formattedReports \<Rightarrow>
                    if length formattedReports > 1 then NavigateSelect formattedReports
                    else if length formattedReports = 1
                    then NavigateReview (formattedReports ! 0)
                    else Failed msg_nothing_extracted)))"

text \<open>
  \<^verbatim>\<open>handleProcess\<close>; \<open>invoke\<close> stands for the extraction service, which answers the
  request body.
\<close>

definition handleProcess ::
  "(jsstring \<Rightarrow> jsstring) \<Rightarrow> (jsstring \<Rightarrow> 'a extract_response) \<Rightarrow> jsstring \<Rightarrow> 'a outcome" where
  "handleProcess formatPhoneNumber invoke raw =
     (case extract_request raw of
        None \<Rightarrow> Failed msg_paste_prompt
      | Some body \<Rightarrow> route_response formatPhoneNumber (invoke body))"

section \<open>The edit dialog (\<^verbatim>\<open>EditReportDialog\<close>)\<close>

subsection \<open>Values\<close>

text \<open>
  A JavaScript number: NaN or a value. Every finite double is a rational number, so
  \<open>real\<close> covers the values; the infinities and the sign of zero are left out, and no
  arithmetic is done on a number here, so no rounding is modelled.
\<close>

datatype number = NaN | Num real

text \<open>Truthiness of a number: NaN and 0 are falsy.\<close>

definition truthy_number :: "number \<Rightarrow> bool" where
  "truthy_number n = (case n of NaN \<Rightarrow> False | Num r \<Rightarrow> r \<noteq> 0)"

text \<open>A value of the update payload.\<close>

datatype jsval = VNull | VNumber number | VString jsstring | VArray "jsstring list"

definition string_value :: "jsstring option \<Rightarrow> jsval" where
  "string_value s = (case s of None \<Rightarrow> VNull | Some t \<Rightarrow> VString t)"

definition number_value :: "number option \<Rightarrow> jsval" where
  "number_value n = (case n of None \<Rightarrow> VNull | Some m \<Rightarrow> VNumber m)"

text \<open>
  The interface \<^verbatim>\<open>Report\<close>. The rows come from the store, where a column may be null, and
  the dialog guards its reads (\<^verbatim>\<open>formData.name || ''\<close>, \<^verbatim>\<open>report.phone?.join\<close>), so a
  field is optional here: \<open>None\<close> is null or undefined.
\<close>

record Report =
  report_id :: jsstring
  name :: "jsstring option"
  lastname :: "jsstring option"
  reporter_name :: "jsstring option"
  address :: "jsstring option"
  phone :: "jsstring list option"
  number_of_adults :: "number option"
  number_of_children :: "number option"
  number_of_infants :: "number option"
  number_of_seniors :: "number option"
  number_of_patients :: "number option"
  health_condition :: "jsstring option"
  help_needed :: "jsstring option"
  help_categories :: "jsstring list option"
  additional_info :: "jsstring option"
  urgency_level :: "number option"
  status :: "jsstring option"
  created_at :: jsstring
  updated_at :: jsstring
  raw_message :: "jsstring option"
  location_lat :: "number option"
  location_long :: "number option"
  map_link :: "jsstring option"

subsection \<open>The inputs of the form\<close>

text \<open>
  The change handler of each of the five counter inputs (declared \<^verbatim>\<open>type="number"\<close>,
  \<^verbatim>\<open>min="0"\<close>): \<^verbatim>\<open>parseInt(e.target.value) || 0\<close> is what the form keeps.
  \<^verbatim>\<open>parseInt\<close> is the built-in of the language and is a parameter.
\<close>

definition counter_onChange :: "(jsstring \<Rightarrow> number) \<Rightarrow> jsstring \<Rightarrow> number option" where
  "counter_onChange parseInt v =
     Some (if truthy_number (parseInt v) then parseInt v else Num 0)"

text \<open>
  The change handler of the latitude and longitude inputs:
  \<^verbatim>\<open>e.target.value ? parseFloat(e.target.value) : null\<close>. The test is on the text, and a
  text is truthy when it is not empty.
\<close>

definition location_onChange :: "(jsstring \<Rightarrow> number) \<Rightarrow> jsstring \<Rightarrow> number option" where
  "location_onChange parseFloat v = (if v \<noteq> [] then Some (parseFloat v) else None)"

subsection \<open>The fields of \<^verbatim>\<open>dataToUpdate\<close>\<close>

text \<open>The Thai literal of line 76, the name stored when none is given, as UTF-16 code units.\<close>

definition unspecified_name :: jsstring where
  "unspecified_name =
     [0x0E44, 0x0E21, 0x0E48, 0x0E23, 0x0E30, 0x0E1A, 0x0E38, 0x0E0A, 0x0E37, 0x0E48,
      0x0E2D]"

text \<open>
  \<^verbatim>\<open>formData.name && formData.name !== '-' ? formData.name : <unspecified>\<close>
\<close>

definition name_field :: "jsstring option \<Rightarrow> jsstring" where
  "name_field n =
     (case n of
        None \<Rightarrow> unspecified_name
      | Some t \<Rightarrow> if t \<noteq> [] \<and> t \<noteq> str ''-'' then t else unspecified_name)"

text \<open>
  \<^verbatim>\<open>s.split(',')\<close>: the pieces between the separators, in order; a string with no
  separator is one piece, the empty string too.
\<close>

fun split_at :: "jschar \<Rightarrow> jsstring \<Rightarrow> jsstring \<Rightarrow> jsstring list" where
  "split_at sep piece [] = [piece]"
| "split_at sep piece (c # cs) =
     (if c = sep then piece # split_at sep [] cs else split_at sep (piece @ [c]) cs)"

definition split_comma :: "jsstring \<Rightarrow> jsstring list" where
  "split_comma s = split_at 0x002C [] s"

text \<open>
  \<^verbatim>\<open>
  phoneInput.split(',').map(p => p.trim()).filter(p => p.length > 0)
            .map(p => formatPhoneNumber(p))
  \<close>
\<close>

definition phones :: "(jsstring \<Rightarrow> jsstring) \<Rightarrow> jsstring \<Rightarrow> jsstring list" where
  "phones formatPhoneNumber phoneInput =
     map (\<lambda>p. formatPhoneNumber p)
       (filter (\<lambda>p. length p > 0) (map (\<lambda>p. trim p) (split_comma phoneInput)))"

text \<open>
  \<^verbatim>\<open>formData.location_lat ? parseFloat(String(formData.location_lat)) : null\<close>.
  \<^verbatim>\<open>parseFloat\<close> and \<^verbatim>\<open>String\<close> are the built-ins of the language and are parameters.
\<close>

definition location_field ::
  "(jsstring \<Rightarrow> number) \<Rightarrow> (number \<Rightarrow> jsstring) \<Rightarrow> number option \<Rightarrow> jsval" where
  "location_field parseFloat toString v =
     (case v of
        None \<Rightarrow> VNull
      | Some x \<Rightarrow> if truthy_number x then VNumber (parseFloat (toString x)) else VNull)"

text \<open>\<^verbatim>\<open>formData.number_of_adults || 0\<close>, and the same for the other four counters.\<close>

definition counter_field :: "number option \<Rightarrow> number" where
  "counter_field v =
     (case v of None \<Rightarrow> Num 0 | Some x \<Rightarrow> if truthy_number x then x else Num 0)"

text \<open>\<^verbatim>\<open>formData.map_link || null\<close>\<close>

definition map_link_field :: "jsstring option \<Rightarrow> jsval" where
  "map_link_field v =
     (case v of None \<Rightarrow> VNull | Some t \<Rightarrow> if t \<noteq> [] then VString t else VNull)"

text \<open>\<^verbatim>\<open>formData.help_categories || []\<close>; an array is truthy, the empty one too.\<close>

definition help_categories_field :: "jsstring list option \<Rightarrow> jsstring list" where
  "help_categories_field v = (case v of None \<Rightarrow> [] | Some cs \<Rightarrow> cs)"

subsection \<open>\<^verbatim>\<open>handleSave\<close>\<close>

text \<open>
  The object literal \<^verbatim>\<open>dataToUpdate\<close>, as the list of its keys and values in the order of
  the source.
\<close>

definition dataToUpdate ::
  "(jsstring \<Rightarrow> jsstring) \<Rightarrow> (jsstring \<Rightarrow> number) \<Rightarrow> (number \<Rightarrow> jsstring) \<Rightarrow>
     Report \<Rightarrow> jsstring \<Rightarrow> (string \<times> jsval) list" where
  "dataToUpdate formatPhoneNumber parseFloat toString formData phoneInput =
     [(''name'', VString (name_field (name formData))),
      (''lastname'', string_value (lastname formData)),
      (''reporter_name'', string_value (reporter_name formData)),
      (''address'', string_value (address formData)),
      (''phone'', VArray (phones formatPhoneNumber phoneInput)),
      (''location_lat'', location_field parseFloat toString (location_lat formData)),
      (''location_long'', location_field parseFloat toString (location_long formData)),
      (''map_link'', map_link_field (map_link formData)),
      (''number_of_adults'', VNumber (counter_field (number_of_adults formData))),
      (''number_of_children'', VNumber (counter_field (number_of_children formData))),
      (''number_of_infants'', VNumber (counter_field (number_of_infants formData))),
      (''number_of_seniors'', VNumber (counter_field (number_of_seniors formData))),
      (''number_of_patients'', VNumber (counter_field (number_of_patients formData))),
      (''health_condition'', string_value (health_condition formData)),
      (''help_needed'', string_value (help_needed formData)),
      (''help_categories'', VArray (help_categories_field (help_categories formData))),
      (''additional_info'', string_value (additional_info formData)),
      (''urgency_level'', number_value (urgency_level formData)),
      (''status'', string_value (status formData))]"

text \<open>A stored row: its columns by name.\<close>

type_synonym row = "string \<rightharpoonup> jsval"

text \<open>
  Modelled from the spec: the persistence update
  \<^verbatim>\<open>supabase.from('reports').update(dataToUpdate).eq('id', report.id)\<close>, whose code is the
  store's and not in the repository. It is keyed by report id and accepts the fields of
  the payload: every row whose \<open>id\<close> is the given one takes the payload's value for each
  key of the payload and keeps its other columns; the other rows stay as they are.
\<close>

definition store_update :: "(string \<times> jsval) list \<Rightarrow> jsstring \<Rightarrow> row list \<Rightarrow> row list" where
  "store_update payload rid table =
     map (\<lambda>r. if r ''id'' = Some (VString rid) then r ++ map_of payload else r) table"

text \<open>How the save ends: the error toast with the store's message, or the success toast.\<close>

datatype save_result = SaveFailed jsstring | Saved

text \<open>
  \<^verbatim>\<open>handleSave\<close>. \<open>store_error\<close> is what the store answers (\<open>None\<close>: no error); a
  refused update writes nothing.
\<close>

definition handleSave ::
  "(jsstring \<Rightarrow> jsstring) \<Rightarrow> (jsstring \<Rightarrow> number) \<Rightarrow> (number \<Rightarrow> jsstring) \<Rightarrow>
     Report \<Rightarrow> Report \<Rightarrow> jsstring \<Rightarrow> jsstring option \<Rightarrow> row list \<Rightarrow> row list \<times> save_result" where
  "handleSave formatPhoneNumber parseFloat toString report formData phoneInput store_error table =
     (case store_error of
        Some e \<Rightarrow> (table, SaveFailed e)
      | None \<Rightarrow>
          (store_update
             (dataToUpdate formatPhoneNumber parseFloat toString formData phoneInput)
             (report_id report) table,
           Saved))"

section \<open>Auxiliary notions of the proofs\<close>

text \<open>
  A text in which every code unit of the class \<open>C\<close> is \<open>sp\<close> and no two of them are
  adjacent: the shape \<^const>\<open>replace_runs\<close> leaves behind.
\<close>

fun collapsed :: "(jschar \<Rightarrow> bool) \<Rightarrow> jschar \<Rightarrow> jsstring \<Rightarrow> bool" where
  "collapsed C sp [] = True"
| "collapsed C sp (c # cs) =
     ((if C c then c = sp \<and> (case cs of [] \<Rightarrow> True | d # _ \<Rightarrow> \<not> C d) else True)
      \<and> collapsed C sp cs)"

text \<open>\<^verbatim>\<open>pieces.join(',')\<close>, the inverse of the split.\<close>

fun join_with :: "jschar \<Rightarrow> jsstring list \<Rightarrow> jsstring" where
  "join_with sep [] = []"
| "join_with sep [p] = p"
| "join_with sep (p # q # ps) = p @ sep # join_with sep (q # ps)"

text \<open>What the spec asks of a population counter: a value that is a whole number, not below 0.\<close>

definition nonneg_integer :: "number \<Rightarrow> bool" where
  "nonneg_integer n = (case n of NaN \<Rightarrow> False | Num r \<Rightarrow> 0 \<le> r \<and> r = of_int (floor r))"

text \<open>A report with every optional field null, for concrete runs of the dialog.\<close>

definition blank_report :: Report where
  "blank_report =
     \<lparr>report_id = str ''r1'', name = None, lastname = None, reporter_name = None,
      address = None, phone = None, number_of_adults = None, number_of_children = None,
      number_of_infants = None, number_of_seniors = None, number_of_patients = None,
      health_condition = None, help_needed = None, help_categories = None,
      additional_info = None, urgency_level = None, status = None,
      created_at = str ''2025-11-26T00:00:00Z'', updated_at = str ''2025-11-26T00:00:00Z'',
      raw_message = None, location_lat = None, location_long = None, map_link = None\<rparr>"

section \<open>The text cleaner\<close>

lemmas space_defs = is_js_space_def is_inline_space_def is_zero_width_def

subsection \<open>Trimming\<close>

lemma trim_decomp: "s = takeWhile is_js_space s @ trim s @ rev (takeWhile is_js_space (rev (dropWhile is_js_space s)))"
proof -
  let ?u = "dropWhile is_js_space s"
  have "?u = rev (dropWhile is_js_space (rev ?u)) @ rev (takeWhile is_js_space (rev ?u))"
    by (metis rev_append rev_rev_ident takeWhile_dropWhile_id)
  then have "?u = trim s @ rev (takeWhile is_js_space (rev ?u))"
    unfolding trim_def .
  moreover have "s = takeWhile is_js_space s @ ?u" by simp
  ultimately show ?thesis by metis
qed

lemma set_trim: "set (trim s) \<subseteq> set s"
  by (metis trim_decomp set_append Un_upper1 Un_upper2 subset_trans)

lemma dropWhile_trim: "dropWhile is_js_space (trim s) = trim s"
proof (cases "trim s")
  case Nil
  then show ?thesis by simp
next
  case (Cons a t)
  let ?u = "dropWhile is_js_space s"
  have u: "?u = trim s @ rev (takeWhile is_js_space (rev ?u))"
    using trim_decomp [of s] by (metis append_assoc same_append_eq takeWhile_dropWhile_id)
  then have "?u \<noteq> []" using Cons by (metis Nil_is_append_conv list.distinct(1))
  then have "\<not> is_js_space (hd ?u)" by (rule hd_dropWhile)
  moreover have "hd ?u = a" using u Cons by (metis append_Cons list.sel(1))
  ultimately show ?thesis using Cons by simp
qed

lemma trim_idem: "trim (trim s) = trim s"
proof -
  have "dropWhile is_js_space (rev (trim s)) = rev (trim s)"
    by (simp add: trim_def)
  then show ?thesis
    using dropWhile_trim [of s] by (simp add: trim_def [of "trim s"])
qed

subsection \<open>Collapsed runs\<close>

lemma hd_replace_runs:
  "s \<noteq> [] \<Longrightarrow> \<not> C (hd s) \<Longrightarrow> replace_runs C r s \<noteq> [] \<and> hd (replace_runs C r s) = hd s"
  by (cases s) auto

lemma collapsed_replace_runs: "collapsed C sp (replace_runs C [sp] s)"
proof (induction C "[sp]" s rule: replace_runs.induct)
  case (1 C)
  then show ?case by simp
next
  case (2 C c cs)
  show ?case
  proof (cases "C c")
    case True
    define d where "d = dropWhile C cs"
    have "case replace_runs C [sp] d of [] \<Rightarrow> True | e # _ \<Rightarrow> \<not> C e"
    proof (cases d)
      case Nil
      then show ?thesis by simp
    next
      case (Cons a t)
      then have "\<not> C a" unfolding d_def by (metis hd_dropWhile list.sel(1) list.distinct(1))
      then show ?thesis using Cons by simp
    qed
    moreover have "collapsed C sp (replace_runs C [sp] d)"
      unfolding d_def using True 2 by simp
    ultimately show ?thesis using True unfolding d_def by simp
  next
    case False
    then show ?thesis using 2 by simp
  qed
qed

lemma replace_runs_collapsed: "collapsed C sp s \<Longrightarrow> replace_runs C [sp] s = s"
proof (induction s)
  case Nil
  then show ?case by simp
next
  case (Cons c cs)
  show ?case
  proof (cases "C c")
    case True
    then have "dropWhile C cs = cs" using Cons.prems by (cases cs) auto
    then show ?thesis using True Cons by simp
  next
    case False
    then show ?thesis using Cons by simp
  qed
qed

lemma collapsed_append: "collapsed C sp (xs @ ys) \<Longrightarrow> collapsed C sp xs \<and> collapsed C sp ys"
proof (induction xs)
  case Nil
  then show ?case by simp
next
  case (Cons c xs)
  then show ?case by (cases xs) (auto split: list.splits if_splits)
qed

lemma collapsed_trim: "collapsed C sp s \<Longrightarrow> collapsed C sp (trim s)"
  by (metis trim_decomp collapsed_append)

subsection \<open>Zero-width code units\<close>

lemma set_replace_runs: "set (replace_runs C r s) \<subseteq> set s \<union> set r"
proof (induction C r s rule: replace_runs.induct)
  case (1 C r)
  then show ?case by simp
next
  case (2 C r c cs)
  have "set (dropWhile C cs) \<subseteq> set cs" by (simp add: set_dropWhileD subsetI)
  then show ?case using 2 by (auto split: if_splits)
qed

lemma replace_each_nil: "replace_each C [] s = filter (\<lambda>c. \<not> C c) s"
  by (induction s) (simp_all add: replace_each_def)

lemma clean_text_no_zero_width: "c \<in> set (clean_text s) \<Longrightarrow> \<not> is_zero_width c"
proof -
  assume "c \<in> set (clean_text s)"
  then have "c \<in> set (replace_runs is_inline_space [0x0020] (replace_each is_zero_width [] s))"
    using set_trim by (auto simp: clean_text_def)
  then have "c \<in> set (replace_each is_zero_width [] s) \<or> c = 0x0020"
    using set_replace_runs by fastforce
  then show ?thesis
    by (auto simp: replace_each_nil is_zero_width_def)
qed

subsection \<open>Idempotence\<close>

lemma clean_text_idem: "clean_text (clean_text s) = clean_text s"
proof -
  let ?n = "clean_text s"
  have 1: "replace_each is_zero_width [] ?n = ?n"
    using clean_text_no_zero_width by (simp add: replace_each_nil filter_id_conv)
  have "collapsed is_inline_space 0x0020 ?n"
    unfolding clean_text_def by (rule collapsed_trim) (rule collapsed_replace_runs)
  then have 2: "replace_runs is_inline_space [0x0020] ?n = ?n"
    by (rule replace_runs_collapsed)
  have 3: "trim ?n = ?n"
    unfolding clean_text_def by (rule trim_idem)
  show ?thesis
    unfolding clean_text_def [of ?n] 1 2 3 ..
qed

text \<open>
  C5. The text cleaner (remove the zero-width code units, collapse each run of white
  space other than CR and LF to one space, trim) is idempotent: cleaning a cleaned text
  gives it back, for every text.
\<close>

theorem C5_clean_text_idempotent: "clean_text (clean_text s) = clean_text s"
  by (rule clean_text_idem)

theorem C5_clean_text_idempotent_witness:
  "clean_text (clean_text [0x0020, 0x0061, 0x200B, 0x0020, 0x0009, 0x0062, 0x000A])
     = clean_text [0x0020, 0x0061, 0x200B, 0x0020, 0x0009, 0x0062, 0x000A]"
  using C5_clean_text_idempotent [of "[0x0020, 0x0061, 0x200B, 0x0020, 0x0009, 0x0062, 0x000A]"]
  by simp

section \<open>The input page\<close>

subsection \<open>Text read from an image\<close>

lemma prefix_ocr_loaded: "prefix (rawMessage st) (rawMessage (ocr_loaded resp st))"
  by (auto simp: ocr_loaded_def ocr_updater_def split: ocr_response.splits option.splits)

lemma prefix_processImageFile: "prefix (rawMessage st) (rawMessage (processImageFile f resp st))"
  using prefix_ocr_loaded [of "st\<lparr>error := []\<rparr>" resp]
  by (simp add: processImageFile_def)

text \<open>
  C4. The text read from an image is cleaned and appended to the staged text. For every
  answer \<open>t\<close> of the OCR call that passes the guard of the handler (not empty after
  trimming, not the "no text found" answer), with \<open>Y\<close> the cleaned text: a staged text
  that is not empty becomes the staged text, then a blank line (two line feeds), then
  \<open>Y\<close>; an empty staged text becomes \<open>Y\<close>. Whatever the file and the answer, the old
  staged text is a prefix of the new one: OCR output never replaces it.
\<close>

theorem C4_ocr_appends:
  assumes "startsWith (file_type f) (str ''image/'')"
    and "file_size f \<le> 10 * 1024 * 1024"
    and "trim t \<noteq> []"
    and "trim t \<noteq> no_text_found"
  shows "(rawMessage st \<noteq> [] \<longrightarrow>
            rawMessage (processImageFile f (OcrData (Some t)) st)
              = rawMessage st @ [0x000A, 0x000A] @ clean_text (trim t))
       \<and> (rawMessage st = [] \<longrightarrow>
            rawMessage (processImageFile f (OcrData (Some t)) st) = clean_text (trim t))
       \<and> (\<forall>g resp. prefix (rawMessage st) (rawMessage (processImageFile g resp st)))"
  using assms prefix_processImageFile
  by (simp add: processImageFile_def ocr_loaded_def ocr_updater_def)

theorem C4_ocr_appends_witness:
  "rawMessage (processImageFile \<lparr>file_type = str ''image/png'', file_size = 2048\<rparr>
       (OcrData (Some (str ''Y''))) \<lparr>rawMessage = str ''X'', error = []\<rparr>)
     = str ''X'' @ [0x000A, 0x000A] @ str ''Y''
   \<and> rawMessage (processImageFile \<lparr>file_type = str ''image/png'', file_size = 2048\<rparr>
       (OcrData (Some (str ''Y''))) \<lparr>rawMessage = [], error = []\<rparr>)
     = str ''Y''"
proof -
  have a: "startsWith (file_type \<lparr>file_type = str ''image/png'', file_size = 2048\<rparr>) (str ''image/'')"
    by (simp add: startsWith_def str_def)
  have b: "file_size \<lparr>file_type = str ''image/png'', file_size = 2048\<rparr> \<le> 10 * 1024 * 1024"
    by simp
  have c: "trim (str ''Y'') \<noteq> []"
    by (simp add: trim_def str_def is_js_space_def)
  have d: "trim (str ''Y'') \<noteq> no_text_found"
    by (simp add: trim_def str_def is_js_space_def no_text_found_def)
  have e: "clean_text (trim (str ''Y'')) = str ''Y''"
    by (simp add: clean_text_def replace_each_def trim_def str_def space_defs)
  show ?thesis
    using C4_ocr_appends [OF a b c d, of "\<lparr>rawMessage = str ''X'', error = []\<rparr>"]
      C4_ocr_appends [OF a b c d, of "\<lparr>rawMessage = [], error = []\<rparr>"]
    by (simp add: e) (simp add: str_def)
qed

subsection \<open>Pasted text\<close>

lemma paste_updater_append: "paste_updater c prev = prev @ c"
  by (simp add: paste_updater_def)

text \<open>
  C10. When the clipboard holds no image item, the pasted text is cleaned and joined
  directly to the staged text, with no separator between the two (the text of an image
  gets a blank line); with an empty staged text the result is the cleaned pasted text
  alone.
\<close>

theorem C10_paste_concatenates:
  assumes "\<not> list_ex (\<lambda>t. startsWith t (str ''image/'')) (items clip)"
  shows "rawMessage (onPaste clip st) = rawMessage st @ clean_text (text_plain clip)
       \<and> (rawMessage st = [] \<longrightarrow> rawMessage (onPaste clip st) = clean_text (text_plain clip))"
  using assms by (simp add: onPaste_def paste_updater_def)

theorem C10_paste_concatenates_witness:
  "rawMessage (onPaste \<lparr>items = [str ''text/plain''], text_plain = str '' b  c ''\<rparr>
                 \<lparr>rawMessage = str ''a'', error = []\<rparr>) = str ''ab c''
   \<and> rawMessage (onPaste \<lparr>items = [str ''text/plain''], text_plain = str '' b  c ''\<rparr>
                 \<lparr>rawMessage = [], error = []\<rparr>) = str ''b c''"
proof -
  have p: "\<not> list_ex (\<lambda>t. startsWith t (str ''image/''))
             (items \<lparr>items = [str ''text/plain''], text_plain = str '' b  c ''\<rparr>)"
    by (simp add: startsWith_def str_def)
  have c: "clean_text (str '' b  c '') = str ''b c''"
    by (simp add: clean_text_def replace_each_def trim_def str_def space_defs)
  show ?thesis
    using C10_paste_concatenates [OF p, of "\<lparr>rawMessage = str ''a'', error = []\<rparr>"]
      C10_paste_concatenates [OF p, of "\<lparr>rawMessage = [], error = []\<rparr>"]
    by (simp add: c) (simp add: str_def)
qed

subsection \<open>Which text is cleaned\<close>

text \<open>
  C9, as stated, fails on typed text. The handler \<^verbatim>\<open>onChange\<close> stores the value of the
  textarea as it is: after typing \<^verbatim>\<open>a  b\<close> (two spaces) the staged text is not the cleaned
  text \<^verbatim>\<open>a b\<close>, it is not a text the cleaner leaves alone, and the request sent to the
  extraction service carries the two spaces.
\<close>

theorem C9_typed_text_not_cleaned:
  "rawMessage (onChange (str ''a  b'') \<lparr>rawMessage = [], error = []\<rparr>) \<noteq> clean_text (str ''a  b'')
   \<and> clean_text (rawMessage (onChange (str ''a  b'') \<lparr>rawMessage = [], error = []\<rparr>))
       \<noteq> rawMessage (onChange (str ''a  b'') \<lparr>rawMessage = [], error = []\<rparr>)
   \<and> extract_request (rawMessage (onChange (str ''a  b'') \<lparr>rawMessage = [], error = []\<rparr>))
       = Some (str ''a  b'')
   \<and> extract_request (rawMessage (onChange (str ''a  b'') \<lparr>rawMessage = [], error = []\<rparr>))
       \<noteq> Some (clean_text (str ''a  b''))"
  by (simp add: onChange_def extract_request_def clean_text_def replace_each_def trim_def
      str_def space_defs)

text \<open>
  C9, amended. Pasted text and text read from an image pass through the text cleaner
  before they are appended to the staged text. Typed text enters the staged text as the
  textarea holds it, uncleaned. What is sent to the extraction service is the staged text
  with leading and trailing white space trimmed, and nothing is sent when that is empty.
\<close>

theorem C9_cleaning_by_source:
  "rawMessage (onChange v st) = v
   \<and> (\<not> list_ex (\<lambda>t. startsWith t (str ''image/'')) (items clip) \<longrightarrow>
        rawMessage (onPaste clip st) = rawMessage st @ clean_text (text_plain clip))
   \<and> (startsWith (file_type f) (str ''image/'') \<and> file_size f \<le> 10 * 1024 * 1024
        \<and> trim t \<noteq> [] \<and> trim t \<noteq> no_text_found \<longrightarrow>
        (\<exists>sep. rawMessage (processImageFile f (OcrData (Some t)) st)
                 = rawMessage st @ sep @ clean_text (trim t)))
   \<and> handleProcess fmt invoke raw
        = (if trim raw = [] then Failed msg_paste_prompt
           else route_response fmt (invoke (trim raw)))"
proof -
  have 1: "rawMessage (onChange v st) = v"
    by (simp add: onChange_def)
  have 2: "\<not> list_ex (\<lambda>t. startsWith t (str ''image/'')) (items clip) \<longrightarrow>
        rawMessage (onPaste clip st) = rawMessage st @ clean_text (text_plain clip)"
    by (simp add: onPaste_def paste_updater_append)
  have 3: "startsWith (file_type f) (str ''image/'') \<and> file_size f \<le> 10 * 1024 * 1024
        \<and> trim t \<noteq> [] \<and> trim t \<noteq> no_text_found \<longrightarrow>
        (\<exists>sep. rawMessage (processImageFile f (OcrData (Some t)) st)
                 = rawMessage st @ sep @ clean_text (trim t))"
  proof
    assume a: "startsWith (file_type f) (str ''image/'') \<and> file_size f \<le> 10 * 1024 * 1024
        \<and> trim t \<noteq> [] \<and> trim t \<noteq> no_text_found"
    show "\<exists>sep. rawMessage (processImageFile f (OcrData (Some t)) st)
                 = rawMessage st @ sep @ clean_text (trim t)"
    proof (cases "rawMessage st = []")
      case True
      then have "rawMessage (processImageFile f (OcrData (Some t)) st)
                 = rawMessage st @ [] @ clean_text (trim t)"
        using a by (simp add: processImageFile_def ocr_loaded_def ocr_updater_def)
      then show ?thesis by blast
    next
      case False
      then have "rawMessage (processImageFile f (OcrData (Some t)) st)
                 = rawMessage st @ [0x000A, 0x000A] @ clean_text (trim t)"
        using a by (simp add: processImageFile_def ocr_loaded_def ocr_updater_def)
      then show ?thesis by blast
    qed
  qed
  have 4: "handleProcess fmt invoke raw
        = (if trim raw = [] then Failed msg_paste_prompt
           else route_response fmt (invoke (trim raw)))"
    by (simp add: handleProcess_def extract_request_def)
  show ?thesis using 1 2 3 4 by blast
qed

theorem C9_cleaning_by_source_witness:
  "rawMessage (onChange (str ''a  b'') \<lparr>rawMessage = [], error = []\<rparr>) = str ''a  b''
   \<and> rawMessage (onPaste \<lparr>items = [str ''text/plain''], text_plain = str ''a  b''\<rparr>
                   \<lparr>rawMessage = str ''X'', error = []\<rparr>) = str ''Xa b''
   \<and> (\<exists>sep. rawMessage (processImageFile \<lparr>file_type = str ''image/png'', file_size = 2048\<rparr>
                (OcrData (Some (str ''a  b''))) \<lparr>rawMessage = str ''X'', error = []\<rparr>)
              = str ''X'' @ sep @ str ''a b'')"
proof -
  have c: "clean_text (str ''a  b'') = str ''a b''" "trim (str ''a  b'') = str ''a  b''"
    by (simp_all add: clean_text_def replace_each_def trim_def str_def space_defs)
  have p: "\<not> list_ex (\<lambda>t. startsWith t (str ''image/''))
             (items \<lparr>items = [str ''text/plain''], text_plain = str ''a  b''\<rparr>)"
    by (simp add: startsWith_def str_def)
  have o: "startsWith (file_type \<lparr>file_type = str ''image/png'', file_size = 2048\<rparr>) (str ''image/'')
       \<and> file_size \<lparr>file_type = str ''image/png'', file_size = 2048\<rparr> \<le> 10 * 1024 * 1024
       \<and> trim (str ''a  b'') \<noteq> [] \<and> trim (str ''a  b'') \<noteq> no_text_found"
    by (simp add: c) (simp add: startsWith_def str_def no_text_found_def)
  have "rawMessage (onChange (str ''a  b'') \<lparr>rawMessage = [], error = []\<rparr>) = str ''a  b''"
    using C9_cleaning_by_source [of "str ''a  b''" "\<lparr>rawMessage = [], error = []\<rparr>"
        "\<lparr>items = [], text_plain = []\<rparr>" "\<lparr>file_type = [], file_size = 0\<rparr>" "[]"
        "\<lambda>p. p" "\<lambda>b. FunctionError [] :: unit extract_response" "[]"]
    by blast
  moreover have "rawMessage (onPaste \<lparr>items = [str ''text/plain''], text_plain = str ''a  b''\<rparr>
                   \<lparr>rawMessage = str ''X'', error = []\<rparr>) = str ''Xa b''"
    using C9_cleaning_by_source [of "[]" "\<lparr>rawMessage = str ''X'', error = []\<rparr>"
        "\<lparr>items = [str ''text/plain''], text_plain = str ''a  b''\<rparr>"
        "\<lparr>file_type = [], file_size = 0\<rparr>" "[]"
        "\<lambda>p. p" "\<lambda>b. FunctionError [] :: unit extract_response" "[]"] p
    by (simp add: c) (simp add: str_def)
  moreover have "\<exists>sep. rawMessage (processImageFile \<lparr>file_type = str ''image/png'', file_size = 2048\<rparr>
                (OcrData (Some (str ''a  b''))) \<lparr>rawMessage = str ''X'', error = []\<rparr>)
              = str ''X'' @ sep @ str ''a b''"
    using C9_cleaning_by_source [of "[]" "\<lparr>rawMessage = str ''X'', error = []\<rparr>"
        "\<lparr>items = [], text_plain = []\<rparr>"
        "\<lparr>file_type = str ''image/png'', file_size = 2048\<rparr>" "str ''a  b''"
        "\<lambda>p. p" "\<lambda>b. FunctionError [] :: unit extract_response" "[]"] o
    by (simp add: c)
  ultimately show ?thesis by blast
qed

subsection \<open>Routing on the number of reports\<close>

text \<open>
  C1. After the phones of every returned report are formatted, the routing is decided by
  the number of reports, and the three cases cover every answer that carries a list: no
  report ends in the failure "nothing could be extracted" with no navigation, exactly one
  report goes to the review page with that report, and more than one goes to the
  selection page with all of them.
\<close>

theorem C1_cardinality_routing:
  assumes "trim raw \<noteq> []"
    and "invoke (trim raw) = ExtractData err (Some reports)"
    and "err = None \<or> err = Some []"
  shows "(length reports = 0 \<longrightarrow>
            handleProcess fmt invoke raw = Failed msg_nothing_extracted)
       \<and> (length reports = 1 \<longrightarrow>
            handleProcess fmt invoke raw = NavigateReview (format_report fmt (reports ! 0)))
       \<and> (length reports > 1 \<longrightarrow>
            handleProcess fmt invoke raw = NavigateSelect (map (format_report fmt) reports))"
  using assms by (auto simp add: handleProcess_def extract_request_def route_response_def)

theorem C1_cardinality_routing_witness:
  "handleProcess (\<lambda>p. p) (\<lambda>b. ExtractData None (Some [])) (str ''x'')
     = (Failed msg_nothing_extracted :: unit outcome)
   \<and> handleProcess (\<lambda>p. 0x002B # p)
        (\<lambda>b. ExtractData None (Some [\<lparr>candidate.phone = Some [str ''081''], rest = ()\<rparr>])) (str ''x'')
     = NavigateReview \<lparr>candidate.phone = Some [str ''+081''], rest = ()\<rparr>
   \<and> handleProcess (\<lambda>p. 0x002B # p)
        (\<lambda>b. ExtractData None (Some [\<lparr>candidate.phone = Some [str ''081''], rest = ()\<rparr>,
                                        \<lparr>candidate.phone = None, rest = ()\<rparr>])) (str ''x'')
     = NavigateSelect [\<lparr>candidate.phone = Some [str ''+081''], rest = ()\<rparr>,
                       \<lparr>candidate.phone = Some [], rest = ()\<rparr>]"
proof -
  have t: "trim (str ''x'') \<noteq> []"
    by (simp add: trim_def str_def is_js_space_def)
  show ?thesis
    using C1_cardinality_routing [OF t, of "\<lambda>b. ExtractData None (Some [])" None "[]" "\<lambda>p. p"]
      C1_cardinality_routing [OF t, of "\<lambda>b. ExtractData None (Some [\<lparr>candidate.phone = Some [str ''081''], rest = ()\<rparr>])"
         None "[\<lparr>candidate.phone = Some [str ''081''], rest = ()\<rparr>]" "\<lambda>p. 0x002B # p"]
      C1_cardinality_routing [OF t, of "\<lambda>b. ExtractData None (Some [\<lparr>candidate.phone = Some [str ''081''], rest = ()\<rparr>,
                                        \<lparr>candidate.phone = None, rest = ()\<rparr>])"
         None "[\<lparr>candidate.phone = Some [str ''081''], rest = ()\<rparr>, \<lparr>candidate.phone = None, rest = ()\<rparr>]" "\<lambda>p. 0x002B # p"]
    by (simp add: format_report_def str_def)
qed

section \<open>The edit dialog\<close>

subsection \<open>Phones\<close>

lemma split_at_not_Nil: "split_at sep piece s \<noteq> []"
  by (induction s arbitrary: piece) auto

lemma join_split_at: "join_with sep (split_at sep piece s) = piece @ s"
proof (induction s arbitrary: piece)
  case Nil
  then show ?case by simp
next
  case (Cons c cs)
  show ?case
  proof (cases "c = sep")
    case True
    obtain q qs where q: "split_at sep [] cs = q # qs"
      using split_at_not_Nil [of sep "[]" cs] by (cases "split_at sep [] cs") auto
    have "join_with sep (piece # q # qs) = piece @ sep # join_with sep (q # qs)" by simp
    also have "join_with sep (q # qs) = cs"
      using Cons.IH [of "[]"] q by simp
    finally show ?thesis using True q by simp
  next
    case False
    then show ?thesis using Cons.IH [of "piece @ [c]"] by simp
  qed
qed

lemma split_at_no_sep:
  "sep \<notin> set piece \<Longrightarrow> \<forall>p \<in> set (split_at sep piece s). sep \<notin> set p"
proof (induction s arbitrary: piece)
  case Nil
  then show ?case by simp
next
  case (Cons c cs)
  show ?case
  proof (cases "c = sep")
    case True
    then show ?thesis using Cons.prems Cons.IH [of "[]"] by simp
  next
    case False
    then show ?thesis using Cons.prems Cons.IH [of "piece @ [c]"] by simp
  qed
qed

text \<open>
  C6. The value of the key \<^verbatim>\<open>phone\<close> in the payload that \<^verbatim>\<open>handleSave\<close> builds is, in
  order, the list of the comma-separated pieces of the phone input, each trimmed, those
  empty after trimming dropped, each of the others formatted with \<^verbatim>\<open>formatPhoneNumber\<close>.
  The pieces are those of a split: joined with commas they give the input back, and none
  holds a comma. Nothing removes duplicates: the stored list has one entry for each piece
  that is not blank.
\<close>

theorem C6_phone_list:
  "map_of (dataToUpdate fmt pf ts fd inp) ''phone''
     = Some (VArray (map fmt (filter (\<lambda>p. p \<noteq> []) (map trim (split_comma inp)))))
   \<and> join_with 0x002C (split_comma inp) = inp
   \<and> (\<forall>p \<in> set (split_comma inp). 0x002C \<notin> set p)
   \<and> (\<exists>ps. map_of (dataToUpdate fmt pf ts fd inp) ''phone'' = Some (VArray ps)
          \<and> length ps = length (filter (\<lambda>p. trim p \<noteq> []) (split_comma inp)))"
proof -
  have p: "phones fmt inp = map fmt (filter (\<lambda>p. p \<noteq> []) (map trim (split_comma inp)))"
    by (simp add: phones_def)
  have 1: "map_of (dataToUpdate fmt pf ts fd inp) ''phone''
     = Some (VArray (map fmt (filter (\<lambda>p. p \<noteq> []) (map trim (split_comma inp)))))"
    by (simp add: dataToUpdate_def p)
  have 2: "join_with 0x002C (split_comma inp) = inp"
    by (simp add: split_comma_def join_split_at)
  have 3: "\<forall>p \<in> set (split_comma inp). 0x002C \<notin> set p"
    using split_at_no_sep [of "0x002C" "[]" inp] by (simp add: split_comma_def)
  have "length (map fmt (filter (\<lambda>p. p \<noteq> []) (map trim (split_comma inp))))
          = length (filter (\<lambda>p. trim p \<noteq> []) (split_comma inp))"
    by (simp add: filter_map comp_def)
  then have 4: "\<exists>ps. map_of (dataToUpdate fmt pf ts fd inp) ''phone'' = Some (VArray ps)
          \<and> length ps = length (filter (\<lambda>p. trim p \<noteq> []) (split_comma inp))"
    using 1 by blast
  show ?thesis using 1 2 3 4 by blast
qed

theorem C6_phone_list_witness:
  "map_of (dataToUpdate (\<lambda>p. filter (\<lambda>c. c \<noteq> 0x002D) p) (\<lambda>s. NaN) (\<lambda>n. []) blank_report
             (str ''081-111-1111, 0822222222,, ,081-111-1111'')) ''phone''
     = Some (VArray [str ''0811111111'', str ''0822222222'', str ''0811111111''])
   \<and> join_with 0x002C (split_comma (str ''081-111-1111, 0822222222,, ,081-111-1111''))
     = str ''081-111-1111, 0822222222,, ,081-111-1111''
   \<and> list_all (\<lambda>p. 0x002C \<notin> set p)
        (split_comma (str ''081-111-1111, 0822222222,, ,081-111-1111''))"
proof -
  have "map (\<lambda>p. filter (\<lambda>c. c \<noteq> 0x002D) p)
          (filter (\<lambda>p. p \<noteq> []) (map trim (split_comma (str ''081-111-1111, 0822222222,, ,081-111-1111''))))
        = [str ''0811111111'', str ''0822222222'', str ''0811111111'']"
    by (simp add: split_comma_def str_def trim_def is_js_space_def)
  then show ?thesis
    using C6_phone_list [of "\<lambda>p. filter (\<lambda>c. c \<noteq> 0x002D) p" "\<lambda>s. NaN" "\<lambda>n. []" blank_report
        "str ''081-111-1111, 0822222222,, ,081-111-1111''"]
    by (simp add: list_all_iff)
qed

subsection \<open>Name\<close>

text \<open>
  C7. The name of the payload is the "unspecified" name when the name of the form is
  absent (null or empty) or is the dash \<^verbatim>\<open>-\<close>; every other name is stored unchanged.
\<close>

theorem C7_name_default:
  "((name fd = None \<or> name fd = Some [] \<or> name fd = Some (str ''-'')) \<longrightarrow>
      map_of (dataToUpdate fmt pf ts fd inp) ''name'' = Some (VString unspecified_name))
   \<and> (\<forall>t. name fd = Some t \<and> t \<noteq> [] \<and> t \<noteq> str ''-'' \<longrightarrow>
      map_of (dataToUpdate fmt pf ts fd inp) ''name'' = Some (VString t))"
  by (auto simp: dataToUpdate_def name_field_def)

theorem C7_name_default_witness:
  "map_of (dataToUpdate (\<lambda>p. p) (\<lambda>s. NaN) (\<lambda>n. []) blank_report []) ''name''
     = Some (VString unspecified_name)
   \<and> map_of (dataToUpdate (\<lambda>p. p) (\<lambda>s. NaN) (\<lambda>n. []) (blank_report\<lparr>name := Some []\<rparr>) []) ''name''
     = Some (VString unspecified_name)
   \<and> map_of (dataToUpdate (\<lambda>p. p) (\<lambda>s. NaN) (\<lambda>n. []) (blank_report\<lparr>name := Some (str ''-'')\<rparr>) []) ''name''
     = Some (VString unspecified_name)
   \<and> map_of (dataToUpdate (\<lambda>p. p) (\<lambda>s. NaN) (\<lambda>n. []) (blank_report\<lparr>name := Some (str ''Somchai'')\<rparr>) []) ''name''
     = Some (VString (str ''Somchai''))"
proof -
  have n: "str ''Somchai'' \<noteq> [] \<and> str ''Somchai'' \<noteq> str ''-''"
    by (simp add: str_def)
  show ?thesis
    using C7_name_default [of blank_report "\<lambda>p. p" "\<lambda>s. NaN" "\<lambda>n. []" "[]"]
      C7_name_default [of "blank_report\<lparr>name := Some []\<rparr>" "\<lambda>p. p" "\<lambda>s. NaN" "\<lambda>n. []" "[]"]
      C7_name_default [of "blank_report\<lparr>name := Some (str ''-'')\<rparr>" "\<lambda>p. p" "\<lambda>s. NaN" "\<lambda>n. []" "[]"]
      C7_name_default [of "blank_report\<lparr>name := Some (str ''Somchai'')\<rparr>" "\<lambda>p. p" "\<lambda>s. NaN" "\<lambda>n. []" "[]"]
      n
    by (simp add: blank_report_def)
qed

subsection \<open>Population counters\<close>

lemma counter_field_defaults:
  "counter_field None = Num 0" "counter_field (Some NaN) = Num 0"
  "counter_field (Some (Num 0)) = Num 0"
  "r \<noteq> 0 \<Longrightarrow> counter_field (Some (Num r)) = Num r"
  by (simp_all add: counter_field_def truthy_number_def)

lemma counter_field_nonneg:
  "nonneg_integer x \<Longrightarrow> nonneg_integer (counter_field (Some x))"
  by (cases x) (auto simp: counter_field_def truthy_number_def nonneg_integer_def)

text \<open>From the input to the payload: what is typed, parsed by \<open>parseInt\<close>, then saved.\<close>

lemma counter_typed:
  "parseInt v = NaN \<Longrightarrow> counter_field (counter_onChange parseInt v) = Num 0"
  "parseInt v = Num r \<Longrightarrow> counter_field (counter_onChange parseInt v) = Num r"
  by (simp_all add: counter_field_def counter_onChange_def truthy_number_def)

text \<open>
  C2. The spec asks that each of the five counters of the stored record be a whole number
  not below 0. \<^verbatim>\<open>formData.number_of_adults || 0\<close> replaces a missing value, NaN and 0 by 0
  and hands every other number on: a form that holds \<open>-3\<close> adults stores \<open>-3\<close>.
\<close>

theorem C2_negative_counter_stored:
  "counter_field (Some (Num (- 3))) = Num (- 3)
   \<and> \<not> nonneg_integer (counter_field (Some (Num (- 3))))
   \<and> map_of (dataToUpdate fmt pf ts (fd\<lparr>number_of_adults := Some (Num (- 3))\<rparr>) inp)
        ''number_of_adults'' = Some (VNumber (Num (- 3)))"
  by (simp add: counter_field_def truthy_number_def nonneg_integer_def dataToUpdate_def)

subsection \<open>Coordinates\<close>

lemma location_field_cases:
  "location_field pf ts None = VNull" "location_field pf ts (Some NaN) = VNull"
  "r \<noteq> 0 \<Longrightarrow> location_field pf ts (Some (Num r)) = VNumber (pf (ts (Num r)))"
  by (simp_all add: location_field_def truthy_number_def)

text \<open>
  From the input to the payload: an empty input and a text that does not parse are stored
  as null, a text that parses to 0 is kept by the change handler and dropped by the save.
\<close>

lemma location_typed:
  "location_field parseFloat toString (location_onChange parseFloat []) = VNull"
  "parseFloat v = NaN \<Longrightarrow>
     location_field parseFloat toString (location_onChange parseFloat v) = VNull"
  "v \<noteq> [] \<Longrightarrow> parseFloat v = Num 0 \<Longrightarrow>
     location_onChange parseFloat v = Some (Num 0)
     \<and> location_field parseFloat toString (location_onChange parseFloat v) = VNull"
  by (simp_all add: location_field_def location_onChange_def truthy_number_def)

text \<open>
  C3. The spec asks that a coordinate that is present be stored as its parse. The test
  \<^verbatim>\<open>formData.location_lat ? ... : null\<close> is one of truthiness, and the number 0 is falsy:
  a latitude or a longitude of 0 is stored as null, whatever \<^verbatim>\<open>parseFloat\<close> and
  \<^verbatim>\<open>String\<close> do.
\<close>

theorem C3_zero_coordinate_dropped:
  "location_field pf ts (Some (Num 0)) = VNull
   \<and> map_of (dataToUpdate fmt pf ts (fd\<lparr>location_lat := Some (Num 0)\<rparr>) inp)
        ''location_lat'' = Some VNull
   \<and> map_of (dataToUpdate fmt pf ts (fd\<lparr>location_long := Some (Num 0)\<rparr>) inp)
        ''location_long'' = Some VNull"
  by (simp add: location_field_def truthy_number_def dataToUpdate_def)

subsection \<open>The original message\<close>

lemma dataToUpdate_keys:
  "map fst (dataToUpdate fmt pf ts fd inp) =
     [''name'', ''lastname'', ''reporter_name'', ''address'', ''phone'', ''location_lat'',
      ''location_long'', ''map_link'', ''number_of_adults'', ''number_of_children'',
      ''number_of_infants'', ''number_of_seniors'', ''number_of_patients'',
      ''health_condition'', ''help_needed'', ''help_categories'', ''additional_info'',
      ''urgency_level'', ''status'']"
  by (simp add: dataToUpdate_def)

lemma raw_message_not_key:
  "''raw_message'' \<notin> fst ` set (dataToUpdate fmt pf ts fd inp)"
proof -
  have "''raw_message'' \<notin> set (map fst (dataToUpdate fmt pf ts fd inp))"
    unfolding dataToUpdate_keys by simp
  then show ?thesis by simp
qed

lemma store_update_frame:
  "k \<notin> fst ` set payload \<Longrightarrow>
     map (\<lambda>r. r k) (store_update payload rid table) = map (\<lambda>r. r k) table"
proof -
  assume "k \<notin> fst ` set payload"
  then have "map_of payload k = None"
    by (simp add: map_of_eq_None_iff)
  then have "\<And>r. (r ++ map_of payload) k = r k"
    by (simp add: map_add_def)
  then show ?thesis
    by (simp add: store_update_def)
qed

text \<open>
  C8. No save alters \<^verbatim>\<open>raw_message\<close>: the payload of the update has no such key, so
  after \<^verbatim>\<open>handleSave\<close>, accepted or refused by the store, every row holds the
  \<^verbatim>\<open>raw_message\<close> it held before.
\<close>

theorem C8_raw_message_untouched:
  "''raw_message'' \<notin> fst ` set (dataToUpdate fmt pf ts fd inp)
   \<and> map (\<lambda>r. r ''raw_message'') (fst (handleSave fmt pf ts report fd inp err table))
       = map (\<lambda>r. r ''raw_message'') table"
  using raw_message_not_key [of fmt pf ts fd inp]
  by (cases err) (simp_all add: handleSave_def store_update_frame)

theorem C8_raw_message_untouched_witness:
  "map (\<lambda>r. r ''raw_message'')
     (fst (handleSave (\<lambda>p. p) (\<lambda>s. NaN) (\<lambda>n. []) blank_report
             (blank_report\<lparr>name := Some (str ''Somchai''), raw_message := Some (str ''edited'')\<rparr>)
             (str ''081'') None
             [[''id'' \<mapsto> VString (str ''r1''), ''raw_message'' \<mapsto> VString (str ''help'')]]))
     = [Some (VString (str ''help''))]"
  using C8_raw_message_untouched [of "\<lambda>p. p" "\<lambda>s. NaN" "\<lambda>n. []"
      "blank_report\<lparr>name := Some (str ''Somchai''), raw_message := Some (str ''edited'')\<rparr>"
      "str ''081''" blank_report None
      "[[''id'' \<mapsto> VString (str ''r1''), ''raw_message'' \<mapsto> VString (str ''help'')]]"]
  by simp

end
